theory Spec2Isabelle
  imports Main
begin

section \<open>The document-signing engine of \<open>digital_signature.py\<close>\<close>

text \<open>
  The class \<open>DigitalSignature\<close> keeps a ledger of signature records in memory
  (\<open>self.signatures\<close>, an insertion-ordered dictionary keyed by signature id), mirrors it in
  \<open>digital_keys/signatures.json\<close>, and keeps its RSA identity in three PEM files beside it.
  The model passes the object's state explicitly, returns every exception that can leave a
  method as a value, and takes what the code draws from outside itself (the clock, the
  randomness of key generation and of the PSS salt) as arguments of the method that
  draws it.
\<close>

subsection \<open>Values\<close>

type_synonym bytes = string

datatype pyval = PyBool bool | PyStr string

text \<open>A Python dictionary with string keys, in insertion order.\<close>

type_synonym 'v pydict = "(string \<times> 'v) list"

fun dict_set :: "string \<Rightarrow> 'v \<Rightarrow> 'v pydict \<Rightarrow> 'v pydict" where
  "dict_set k v [] = [(k, v)]"
| "dict_set k v ((k', v') # rest) =
     (if k' = k then (k, v) # rest else (k', v') # dict_set k v rest)"

definition dict_get :: "'v pydict \<Rightarrow> string \<Rightarrow> 'v option" where
  "dict_get d k = map_of d k"

definition get_default :: "(string \<rightharpoonup> string) \<Rightarrow> string \<Rightarrow> string \<Rightarrow> string" where
  "get_default d k dflt = (case d k of None \<Rightarrow> dflt | Some v \<Rightarrow> v)"

datatype exn =
    FileNotFoundError
  | JSONDecodeError
  | KeyLoadError
  | Base64Error
  | InvalidSignature

subsection \<open>The clock\<close>

record datetime =
  year :: nat
  month :: nat
  day :: nat
  hour :: nat
  minute :: nat
  second :: nat
  microsecond :: nat

definition digit :: "nat \<Rightarrow> char" where
  "digit d = ''0123456789'' ! (d mod 10)"

fun zero_pad :: "nat \<Rightarrow> nat \<Rightarrow> string" where
  "zero_pad 0 n = []"
| "zero_pad (Suc w) n = zero_pad w (n div 10) @ [digit n]"

text \<open>\<open>strftime('%Y%m%d%H%M%S')\<close>, for years of four digits.\<close>

definition strftime_compact :: "datetime \<Rightarrow> string" where
  "strftime_compact t =
     zero_pad 4 (year t) @ zero_pad 2 (month t) @ zero_pad 2 (day t) @
     zero_pad 2 (hour t) @ zero_pad 2 (minute t) @ zero_pad 2 (second t)"

text \<open>\<open>isoformat()\<close>: the microseconds are printed only when they are not zero.\<close>

definition isoformat :: "datetime \<Rightarrow> string" where
  "isoformat t =
     zero_pad 4 (year t) @ ''-'' @ zero_pad 2 (month t) @ ''-'' @ zero_pad 2 (day t) @ ''T'' @
     zero_pad 2 (hour t) @ '':'' @ zero_pad 2 (minute t) @ '':'' @ zero_pad 2 (second t) @
     (if microsecond t = 0 then [] else ''.'' @ zero_pad 6 (microsecond t))"

subsection \<open>The libraries the module calls\<close>

text \<open>
  The primitives of \<open>cryptography\<close>, \<open>base64\<close>, \<open>json\<close> and \<open>os.path\<close> are parameters of
  the model, collected in one record. A primitive that can raise returns an option.
  \<open>pss_sign key salt data\<close> is \<open>key.sign(data, PSS(MGF1(SHA256), MAX_LENGTH), SHA256)\<close> with
  the salt the library draws made explicit; \<open>pss_verify key signature data\<close> is true when
  \<open>key.verify(signature, data, ...)\<close> returns and false when it raises \<open>InvalidSignature\<close>.
  \<open>resolve\<close> stands for the operating system's path resolution: the file a path names.
\<close>

record signature_data =
  signature_id :: string
  document_path :: string
  signer_name :: string
  signer_email :: string
  signer_tax_code :: string
  signature :: string
  document_hash :: string
  timestamp :: string
  algorithm :: string
  key_size :: int
  status :: string

type_synonym ledger = "signature_data pydict"

record ('sk, 'pk) lib =
  sha256 :: "bytes \<Rightarrow> bytes"
  generate_private_key :: "nat \<Rightarrow> nat \<Rightarrow> bytes \<Rightarrow> 'sk"
  public_key :: "'sk \<Rightarrow> 'pk"
  private_bytes :: "'sk \<Rightarrow> bytes"
  public_bytes :: "'pk \<Rightarrow> bytes"
  load_pem_private_key :: "bytes \<Rightarrow> 'sk option"
  load_pem_public_key :: "bytes \<Rightarrow> 'pk option"
  pss_sign :: "'sk \<Rightarrow> bytes \<Rightarrow> bytes \<Rightarrow> bytes"
  pss_verify :: "'pk \<Rightarrow> bytes \<Rightarrow> bytes \<Rightarrow> bool"
  self_signed_certificate ::
    "(string \<times> string) list \<Rightarrow> 'pk \<Rightarrow> nat \<Rightarrow> datetime \<Rightarrow> datetime \<Rightarrow> 'sk \<Rightarrow> bytes"
  add_days :: "datetime \<Rightarrow> nat \<Rightarrow> datetime"
  b64encode :: "bytes \<Rightarrow> string"
  b64decode :: "string \<Rightarrow> bytes option"
  json_dump :: "ledger \<Rightarrow> bytes"
  json_load :: "bytes \<Rightarrow> ledger option"
  normpath :: "string \<Rightarrow> string"
  resolve :: "string \<Rightarrow> string"
  exn_str :: "exn \<Rightarrow> string"

subsection \<open>Files\<close>

type_synonym disk = "string \<rightharpoonup> bytes"

definition path_exists :: "('sk, 'pk) lib \<Rightarrow> disk \<Rightarrow> string \<Rightarrow> bool" where
  "path_exists env fs p = (fs (resolve env p) \<noteq> None)"

definition read_file :: "('sk, 'pk) lib \<Rightarrow> disk \<Rightarrow> string \<Rightarrow> exn + bytes" where
  "read_file env fs p =
     (case fs (resolve env p) of None \<Rightarrow> Inl FileNotFoundError | Some b \<Rightarrow> Inr b)"

definition write_file :: "('sk, 'pk) lib \<Rightarrow> disk \<Rightarrow> string \<Rightarrow> bytes \<Rightarrow> disk" where
  "write_file env fs p b = fs(resolve env p \<mapsto> b)"

text \<open>\<open>os.path.join\<close> of two components, as \<open>posixpath\<close> has it.\<close>

definition path_join :: "string \<Rightarrow> string \<Rightarrow> string" where
  "path_join a b =
     (if b \<noteq> [] \<and> hd b = CHR ''/'' then b
      else if a = [] \<or> last a = CHR ''/'' then a @ b
      else a @ ''/'' @ b)"

definition keys_folder :: string where
  "keys_folder = ''digital_keys''"

definition signatures_file :: string where
  "signatures_file = path_join keys_folder ''signatures.json''"

definition private_key_path :: string where
  "private_key_path = path_join keys_folder ''private_key.pem''"

definition public_key_path :: string where
  "public_key_path = path_join keys_folder ''public_key.pem''"

definition certificate_path :: string where
  "certificate_path = path_join keys_folder ''certificate.pem''"

subsection \<open>The object\<close>

record ds_state =
  signatures :: ledger
  files :: disk

definition save_signatures :: "('sk, 'pk) lib \<Rightarrow> ds_state \<Rightarrow> ds_state" where
  "save_signatures env st =
     st\<lparr>files := write_file env (files st) signatures_file (json_dump env (signatures st))\<rparr>"


definition load_private_key :: "('sk, 'pk) lib \<Rightarrow> ds_state \<Rightarrow> exn + 'sk" where
  "load_private_key env st =
     (case read_file env (files st) private_key_path of
        Inl e \<Rightarrow> Inl e
      | Inr pem \<Rightarrow>
          (case load_pem_private_key env pem of None \<Rightarrow> Inl KeyLoadError | Some k \<Rightarrow> Inr k))"

definition load_public_key :: "('sk, 'pk) lib \<Rightarrow> ds_state \<Rightarrow> exn + 'pk" where
  "load_public_key env st =
     (case read_file env (files st) public_key_path of
        Inl e \<Rightarrow> Inl e
      | Inr pem \<Rightarrow>
          (case load_pem_public_key env pem of None \<Rightarrow> Inl KeyLoadError | Some k \<Rightarrow> Inr k))"

subsection \<open>Generating the identity\<close>





subsection \<open>Signing\<close>

text \<open>The dictionary \<open>signature_data\<close> that \<open>sign_document\<close> assembles.\<close>

definition new_signature_data ::
  "('sk, 'pk) lib \<Rightarrow> string \<Rightarrow> string \<Rightarrow> (string \<rightharpoonup> string) \<Rightarrow> string \<Rightarrow> bytes \<Rightarrow> datetime
     \<Rightarrow> signature_data" where
  "new_signature_data env sid path signer_info signature_b64 doc_hash now =
     \<lparr>signature_id = sid,
      document_path = normpath env path,
      signer_name = get_default signer_info ''name'' [],
      signer_email = get_default signer_info ''email'' [],
      signer_tax_code = get_default signer_info ''tax_code'' [],
      signature = signature_b64,
      document_hash = b64encode env doc_hash,
      timestamp = isoformat now,
      algorithm = ''RSA-PSS-SHA256'',
      key_size = 2048,
      status = ''valid''\<rparr>"

text \<open>
  \<open>sign_document\<close>. \<open>salt\<close> is the PSS salt of this call; \<open>now1\<close> and \<open>now2\<close> are the two
  readings of \<open>datetime.now()\<close>, the first for the id, the second for the timestamp.
\<close>

definition sign_document ::
  "('sk, 'pk) lib \<Rightarrow> bytes \<Rightarrow> datetime \<Rightarrow> datetime \<Rightarrow> ds_state \<Rightarrow> string \<Rightarrow> (string \<rightharpoonup> string)
     \<Rightarrow> (exn + pyval pydict) \<times> ds_state" where
  "sign_document env salt now1 now2 st path signer_info =
     (if \<not> path_exists env (files st) path then
        (Inr [(''error'', PyStr ''Document not found'')], st)
      else
        (case read_file env (files st) path of
           Inl e \<Rightarrow> (Inl e, st)
         | Inr document_data \<Rightarrow>
             (let doc_hash = sha256 env document_data in
              case load_private_key env st of
                Inl e \<Rightarrow> (Inl e, st)
              | Inr priv \<Rightarrow>
                  (let sig = pss_sign env priv salt doc_hash;
                       signature_b64 = b64encode env sig;
                       sid = ''SIG-'' @ strftime_compact now1;
                       sd = new_signature_data env sid path signer_info signature_b64 doc_hash now2;
                       st1 = st\<lparr>signatures := dict_set sid sd (signatures st)\<rparr>;
                       st2 = save_signatures env st1
                   in (Inr [(''success'', PyBool True),
                            (''signature_id'', PyStr sid),
                            (''signature'', PyStr signature_b64),
                            (''timestamp'', PyStr (timestamp sd)),
                            (''signer'', PyStr (get_default signer_info ''name'' [])),
                            (''message'', PyStr
                               ''Document signed successfully with Vietnamese digital signature standard'')],
                       st2)))))"

subsection \<open>Verifying\<close>

text \<open>The loop over \<open>self.signatures.items()\<close>: it stops at the first record whose path matches.\<close>

fun find_signature :: "('sk, 'pk) lib \<Rightarrow> ledger \<Rightarrow> string \<Rightarrow> signature_data option" where
  "find_signature env [] normalized_path = None"
| "find_signature env ((sig_id, sg) # rest) normalized_path =
     (if normpath env (document_path sg) = normalized_path then Some sg
      else find_signature env rest normalized_path)"

text \<open>The body of the \<open>try\<close> block: any exception raised in it is caught by the handler.\<close>

definition check_signature ::
  "('sk, 'pk) lib \<Rightarrow> ds_state \<Rightarrow> signature_data \<Rightarrow> bytes \<Rightarrow> exn + unit" where
  "check_signature env st sg current_hash =
     (case b64decode env (signature sg) of
        None \<Rightarrow> Inl Base64Error
      | Some sig \<Rightarrow>
          (case load_public_key env st of
             Inl e \<Rightarrow> Inl e
           | Inr pub \<Rightarrow>
               (if pss_verify env pub sig current_hash then Inr () else Inl InvalidSignature)))"

definition verify_signature ::
  "('sk, 'pk) lib \<Rightarrow> ds_state \<Rightarrow> string \<Rightarrow> (exn + pyval pydict) \<times> ds_state" where
  "verify_signature env st path =
     (case find_signature env (signatures st) (normpath env path) of
        None \<Rightarrow>
          (Inr [(''valid'', PyBool False),
                (''error'', PyStr ''No signature found for this document'')], st)
      | Some sg \<Rightarrow>
          (case read_file env (files st) path of
             Inl e \<Rightarrow> (Inl e, st)
           | Inr document_data \<Rightarrow>
               (let current_hash = sha256 env document_data in
                case b64decode env (document_hash sg) of
                  None \<Rightarrow> (Inl Base64Error, st)
                | Some stored_hash \<Rightarrow>
                    (if current_hash \<noteq> stored_hash then
                       (Inr [(''valid'', PyBool False),
                             (''error'', PyStr ''Document has been modified after signing''),
                             (''integrity'', PyStr ''compromised'')], st)
                     else
                       (case check_signature env st sg current_hash of
                          Inr u \<Rightarrow>
                            (Inr [(''valid'', PyBool True),
                                  (''signature_id'', PyStr (signature_id sg)),
                                  (''signer'', PyStr (signer_name sg)),
                                  (''timestamp'', PyStr (timestamp sg)),
                                  (''algorithm'', PyStr (algorithm sg)),
                                  (''integrity'', PyStr ''intact''),
                                  (''message'', PyStr
                                     ''Signature is valid and complies with Vietnamese digital signature standards'')],
                             st)
                        | Inl e \<Rightarrow>
                            (Inr [(''valid'', PyBool False),
                                  (''error'', PyStr (''Signature verification failed: '' @ exn_str env e)),
                                  (''integrity'', PyStr ''invalid'')], st))))))"

text \<open>The field of a returned dictionary; a call that raised returned none.\<close>

definition result_field :: "exn + pyval pydict \<Rightarrow> string \<Rightarrow> pyval option" where
  "result_field r k = (case r of Inl e \<Rightarrow> None | Inr d \<Rightarrow> dict_get d k)"

subsection \<open>What the libraries are relied on for\<close>

definition b64_roundtrip :: "('sk, 'pk) lib \<Rightarrow> bool" where
  "b64_roundtrip env \<longleftrightarrow> (\<forall>x. b64decode env (b64encode env x) = Some x)"

definition normpath_idempotent :: "('sk, 'pk) lib \<Rightarrow> bool" where
  "normpath_idempotent env \<longleftrightarrow> (\<forall>p. normpath env (normpath env p) = normpath env p)"

text \<open>
  The salt of a PSS signature under a 2048-bit key, with SHA-256 and the maximal salt
  length the code asks for: the 256 bytes of the encoded message less the digest and two.
  The contracts on signing speak of one key and of salts of that length, the ones the
  library draws.
\<close>

definition pss_max_salt_length :: nat where
  "pss_max_salt_length = 2048 div 8 - 32 - 2"

definition pss_correct :: "('sk, 'pk) lib \<Rightarrow> 'sk \<Rightarrow> bool" where
  "pss_correct env priv \<longleftrightarrow>
     (\<forall>salt h. length salt = pss_max_salt_length \<longrightarrow>
        pss_verify env (public_key env priv) (pss_sign env priv salt h) h)"

definition pss_salt_injective :: "('sk, 'pk) lib \<Rightarrow> 'sk \<Rightarrow> bool" where
  "pss_salt_injective env priv \<longleftrightarrow>
     (\<forall>h salt1 salt2.
        length salt1 = pss_max_salt_length \<and> length salt2 = pss_max_salt_length \<and>
        pss_sign env priv salt1 h = pss_sign env priv salt2 h \<longrightarrow> salt1 = salt2)"

text \<open>
  A stored record verifies for the document \<open>D\<close>: its digest decodes to the SHA-256 of
  \<open>D\<close> and its signature decodes to bytes the RSA check accepts for that digest.
\<close>

definition record_verifies ::
  "('sk, 'pk) lib \<Rightarrow> 'pk \<Rightarrow> signature_data \<Rightarrow> bytes \<Rightarrow> bool" where
  "record_verifies env pub sg D \<longleftrightarrow>
     b64decode env (document_hash sg) = Some (sha256 env D) \<and>
     (case b64decode env (signature sg) of
        None \<Rightarrow> False
      | Some sig \<Rightarrow> pss_verify env pub sig (sha256 env D))"

text \<open>The four files of the module are four different files.\<close>

definition module_files_distinct :: "('sk, 'pk) lib \<Rightarrow> bool" where
  "module_files_distinct env \<longleftrightarrow>
     distinct (map (resolve env)
       [signatures_file, private_key_path, public_key_path, certificate_path])"

subsection \<open>\<open>posixpath.normpath\<close>\<close>

text \<open>
  The standard library's function on POSIX, used where a run needs a concrete
  \<open>os.path.normpath\<close>: \<open>split_sep\<close> is \<open>path.split('/')\<close>, \<open>join_sep\<close> is \<open>'/'.join\<close>,
  \<open>norm_step\<close> is the body of the loop over the components.
\<close>

fun split_sep :: "string \<Rightarrow> string list" where
  "split_sep [] = [[]]"
| "split_sep (c # cs) =
     (if c = CHR ''/'' then [] # split_sep cs
      else (case split_sep cs of [] \<Rightarrow> [[c]] | w # ws \<Rightarrow> (c # w) # ws))"

fun join_sep :: "string list \<Rightarrow> string" where
  "join_sep [] = []"
| "join_sep [w] = w"
| "join_sep (w # ws) = w @ ''/'' @ join_sep ws"

definition initial_slashes :: "string \<Rightarrow> nat" where
  "initial_slashes p =
     (if take 1 p = ''/'' then
        (if take 2 p = ''//'' \<and> take 3 p \<noteq> ''///'' then 2 else 1)
      else 0)"

definition norm_step :: "nat \<Rightarrow> string list \<Rightarrow> string \<Rightarrow> string list" where
  "norm_step k new_comps part =
     (if part = [] \<or> part = ''.'' then new_comps
      else if part \<noteq> ''..'' \<or> (k = 0 \<and> new_comps = []) \<or>
              (new_comps \<noteq> [] \<and> last new_comps = ''..'')
        then new_comps @ [part]
      else if new_comps \<noteq> [] then butlast new_comps
      else new_comps)"

definition posix_normpath :: "string \<Rightarrow> string" where
  "posix_normpath p =
     (if p = [] then ''.''
      else
        (let k = initial_slashes p;
             comps = foldl (norm_step k) [] (split_sep p);
             path = replicate k CHR ''/'' @ join_sep comps
         in if path = [] then ''.'' else path))"

text \<open>A component of a normalised path, and a normalised list of components read backwards.\<close>

definition clean :: "string \<Rightarrow> bool" where
  "clean c \<longleftrightarrow> c \<noteq> [] \<and> c \<noteq> ''.'' \<and> CHR ''/'' \<notin> set c"

fun normal_rev :: "nat \<Rightarrow> string list \<Rightarrow> bool" where
  "normal_rev k [] = True"
| "normal_rev k (c # prev) =
     (clean c \<and> (c = ''..'' \<longrightarrow> k = 0 \<and> (prev = [] \<or> hd prev = ''..'')) \<and> normal_rev k prev)"

subsection \<open>A small instance of the libraries\<close>

text \<open>
  Concrete runs need concrete primitives. This instance keeps the shape of the real
  ones and none of their strength: keys are byte strings, the digest reverses its
  input, a signature is the public key followed by the digest and the salt. Paths are
  normalised and resolved by \<open>posix_normpath\<close>.
\<close>

definition demo_pem_load :: "string \<Rightarrow> bytes \<Rightarrow> bytes option" where
  "demo_pem_load header pem =
     (if take (length header) pem = header then Some (drop (length header) pem) else None)"

definition demo_b64decode :: "string \<Rightarrow> bytes option" where
  "demo_b64decode s = (if s \<noteq> [] \<and> last s = CHR ''='' then Some (butlast s) else None)"

definition demo_lib :: "(bytes, bytes) lib" where
  "demo_lib =
     \<lparr>sha256 = rev,
      generate_private_key = (\<lambda>e bits entropy. entropy),
      public_key = rev,
      private_bytes = (\<lambda>k. ''PRIVATE:'' @ k),
      public_bytes = (\<lambda>k. ''PUBLIC:'' @ k),
      load_pem_private_key = demo_pem_load ''PRIVATE:'',
      load_pem_public_key = demo_pem_load ''PUBLIC:'',
      pss_sign = (\<lambda>priv salt h. rev priv @ h @ salt),
      pss_verify = (\<lambda>pub sg h. take (length pub + length h) sg = pub @ h),
      self_signed_certificate = (\<lambda>subject pub serial t1 t2 priv. ''CERT:'' @ pub),
      add_days = (\<lambda>t n. t),
      b64encode = (\<lambda>x. x @ ''=''),
      b64decode = demo_b64decode,
      json_dump = (\<lambda>l. if l = [] then ''{}'' else ''{...}''),
      json_load = (\<lambda>text. if text = ''{}'' then Some [] else None),
      normpath = posix_normpath,
      resolve = posix_normpath,
      exn_str = (\<lambda>e. [])\<rparr>"

definition demo_now :: "nat \<Rightarrow> nat \<Rightarrow> datetime" where
  "demo_now s us =
     \<lparr>year = 2024, month = 1, day = 15, hour = 12, minute = 0, second = s, microsecond = us\<rparr>"

text \<open>A disk with the identity of the key \<open>sk\<close> and one document.\<close>

definition demo_disk :: "bytes \<Rightarrow> disk" where
  "demo_disk content =
     [''digital_keys/private_key.pem'' \<mapsto> ''PRIVATE:sk'',
      ''digital_keys/public_key.pem'' \<mapsto> ''PUBLIC:ks'',
      ''a.txt'' \<mapsto> content]"

definition demo_signer :: "string \<rightharpoonup> string" where
  "demo_signer = [''name'' \<mapsto> ''Acme'', ''email'' \<mapsto> ''a@acme.vn'', ''tax_code'' \<mapsto> ''TX1'']"

text \<open>A salt of the maximal length, filled with one byte.\<close>

definition demo_salt :: "char \<Rightarrow> bytes" where
  "demo_salt c = replicate pss_max_salt_length c"

text \<open>A fresh object on that disk, and the object after it has signed the document once.\<close>

definition demo_state :: "bytes \<Rightarrow> ds_state" where
  "demo_state content = \<lparr>signatures = [], files = demo_disk content\<rparr>"

definition demo_signed :: "bytes \<Rightarrow> ds_state" where
  "demo_signed content =
     snd (sign_document demo_lib ''s1'' (demo_now 0 1) (demo_now 0 2) (demo_state content)
            ''a.txt'' demo_signer)"

text \<open>The key pair on disk: the public key file holds the public half of the private key file.\<close>

definition identity_on_disk :: "('sk, 'pk) lib \<Rightarrow> ds_state \<Rightarrow> 'sk \<Rightarrow> bool" where
  "identity_on_disk env st priv \<longleftrightarrow>
     load_private_key env st = Inr priv \<and> load_public_key env st = Inr (public_key env priv)"

text \<open>The record that signing a document of the given content stores on that disk.\<close>

definition demo_record :: "string \<Rightarrow> string \<Rightarrow> bytes \<Rightarrow> signature_data" where
  "demo_record sid path content =
     new_signature_data demo_lib sid path demo_signer
       (b64encode demo_lib (pss_sign demo_lib ''sk'' ''s1'' (sha256 demo_lib content)))
       (sha256 demo_lib content) (demo_now 0 2)"

text \<open>
  The object after it signed the content \<open>old\<close> and the document was then rewritten to
  \<open>new\<close>, and the same object after it signed the document again one second later.
\<close>

definition demo_edited :: "bytes \<Rightarrow> bytes \<Rightarrow> ds_state" where
  "demo_edited old new =
     (demo_signed old)\<lparr>files := (files (demo_signed old))(''a.txt'' \<mapsto> new)\<rparr>"

definition demo_resigned :: "bytes \<Rightarrow> bytes \<Rightarrow> ds_state" where
  "demo_resigned old new =
     snd (sign_document demo_lib ''s2'' (demo_now 1 1) (demo_now 1 2) (demo_edited old new)
            ''a.txt'' demo_signer)"

section \<open>Normalising twice is normalising once\<close>

lemma split_sep_nonempty: "split_sep p \<noteq> []"
  by (induction p) (auto split: list.splits)

lemma split_sep_no_slash: "w \<in> set (split_sep p) \<Longrightarrow> CHR ''/'' \<notin> set w"
proof (induction p arbitrary: w)
  case Nil
  then show ?case by simp
next
  case (Cons c cs)
  show ?case
  proof (cases "c = CHR ''/''")
    case True
    with Cons show ?thesis by auto
  next
    case False
    obtain v vs where vs: "split_sep cs = v # vs"
      using split_sep_nonempty [of cs] by (cases "split_sep cs") auto
    with False Cons.prems have "w = c # v \<or> w \<in> set vs" by simp
    then show ?thesis
    proof
      assume "w = c # v"
      moreover have "CHR ''/'' \<notin> set v" using Cons.IH [of v] vs by simp
      ultimately show ?thesis using False by auto
    next
      assume "w \<in> set vs"
      then show ?thesis using Cons.IH [of w] vs by simp
    qed
  qed
qed

lemma normal_rev_tl: "normal_rev k xs \<Longrightarrow> normal_rev k (tl xs)"
  by (cases xs) auto

lemma normal_rev_suffix: "normal_rev k (xs @ ys) \<Longrightarrow> normal_rev k ys"
  by (induction xs) auto

lemma normal_rev_clean: "normal_rev k xs \<Longrightarrow> c \<in> set xs \<Longrightarrow> clean c"
  by (induction xs) auto

text \<open>One turn of the loop keeps the components collected so far normalised.\<close>

lemma norm_step_normal:
  assumes "normal_rev k (rev acc)" and "CHR ''/'' \<notin> set part"
  shows "normal_rev k (rev (norm_step k acc part))"
proof -
  have hd_dd: "k = 0" if "acc \<noteq> []" "last acc = ''..''"
  proof -
    from that obtain c prev where "rev acc = c # prev" "c = ''..''"
      by (cases acc rule: rev_cases) auto
    with assms(1) show ?thesis by simp
  qed
  show ?thesis
  proof (cases "part = [] \<or> part = ''.''")
    case True
    then show ?thesis using assms by (auto simp: norm_step_def)
  next
    case skip: False
    show ?thesis
    proof (cases "part \<noteq> ''..'' \<or> (k = 0 \<and> acc = []) \<or> (acc \<noteq> [] \<and> last acc = ''..'')")
      case True
      then have "norm_step k acc part = acc @ [part]"
        using skip by (simp add: norm_step_def)
      moreover have "clean part" using skip assms(2) by (simp add: clean_def)
      moreover have "part = ''..'' \<longrightarrow> k = 0 \<and> (rev acc = [] \<or> hd (rev acc) = ''..'')"
        using True hd_dd by (auto simp: hd_rev)
      ultimately show ?thesis using assms(1) by simp
    next
      case False
      then have "norm_step k acc part = (if acc \<noteq> [] then butlast acc else acc)"
        using skip by (auto simp: norm_step_def)
      moreover have "rev (butlast acc) = tl (rev acc)"
        by (cases acc rule: rev_cases) auto
      ultimately show ?thesis
        using assms(1) normal_rev_tl [of k "rev acc"] by auto
    qed
  qed
qed

lemma foldl_norm_step_normal:
  "normal_rev k (rev acc) \<Longrightarrow> \<forall>w\<in>set ws. CHR ''/'' \<notin> set w \<Longrightarrow>
     normal_rev k (rev (foldl (norm_step k) acc ws))"
proof (induction ws arbitrary: acc)
  case Nil
  then show ?case by simp
next
  case (Cons w ws)
  then show ?case using norm_step_normal [of k acc w] by simp
qed

text \<open>On components that are already normalised the loop changes nothing.\<close>

lemma foldl_norm_step_id:
  "normal_rev k (rev (acc @ cs)) \<Longrightarrow> foldl (norm_step k) acc cs = acc @ cs"
proof (induction cs arbitrary: acc)
  case Nil
  then show ?case by simp
next
  case (Cons c cs)
  from Cons.prems have "normal_rev k (rev cs @ (c # rev acc))" by simp
  then have n: "normal_rev k (c # rev acc)" by (rule normal_rev_suffix)
  then have "norm_step k acc c = acc @ [c]"
    by (cases acc rule: rev_cases) (auto simp: norm_step_def clean_def)
  moreover have "normal_rev k (rev ((acc @ [c]) @ cs))" using Cons.prems by simp
  ultimately show ?case using Cons.IH [of "acc @ [c]"] by simp
qed

lemma foldl_norm_step_empties:
  "foldl (norm_step k) acc (replicate n [] @ xs) = foldl (norm_step k) acc xs"
  by (induction n) (auto simp: norm_step_def)

lemma split_sep_single: "CHR ''/'' \<notin> set w \<Longrightarrow> split_sep w = [w]"
  by (induction w) auto

lemma split_sep_append:
  "CHR ''/'' \<notin> set w \<Longrightarrow> split_sep (w @ CHR ''/'' # rest) = w # split_sep rest"
  by (induction w) auto

lemma split_join:
  "cs \<noteq> [] \<Longrightarrow> \<forall>c\<in>set cs. CHR ''/'' \<notin> set c \<Longrightarrow> split_sep (join_sep cs) = cs"
proof (induction cs rule: join_sep.induct)
  case 1
  then show ?case by simp
next
  case (2 w)
  then show ?case by (simp add: split_sep_single)
next
  case (3 w v vs)
  then show ?case by (simp add: split_sep_append)
qed

lemma split_sep_slashes:
  "split_sep (replicate k CHR ''/'' @ s) = replicate k [] @ split_sep s"
  by (induction k) auto

lemma initial_slashes_le: "initial_slashes p \<le> 2"
  by (simp add: initial_slashes_def)

lemma join_sep_hd:
  "cs \<noteq> [] \<Longrightarrow> clean (hd cs) \<Longrightarrow> \<exists>x xs. join_sep cs = x # xs \<and> x \<noteq> CHR ''/''"
proof (induction cs rule: join_sep.induct)
  case 1
  then show ?case by simp
next
  case (2 w)
  then show ?case by (cases w) (auto simp: clean_def)
next
  case (3 w v vs)
  then show ?case by (cases w) (auto simp: clean_def)
qed

lemma initial_slashes_result:
  assumes "k \<le> 2" and "join_sep cs = x # xs" and "x \<noteq> CHR ''/''"
  shows "initial_slashes (replicate k CHR ''/'' @ join_sep cs) = k"
proof -
  from assms(1) consider "k = 0" | "k = 1" | "k = 2" by linarith
  then show ?thesis
    using assms(2,3) by cases (auto simp: initial_slashes_def numeral_2_eq_2)
qed

lemma posix_normpath_idem: "posix_normpath (posix_normpath p) = posix_normpath p"
proof (cases "p = []")
  case True
  then show ?thesis
    by (simp add: posix_normpath_def initial_slashes_def norm_step_def)
next
  case False
  define k where "k = initial_slashes p"
  define cs where "cs = foldl (norm_step k) [] (split_sep p)"
  define q where "q = replicate k CHR ''/'' @ join_sep cs"
  have k2: "k \<le> 2" by (simp add: k_def initial_slashes_le)
  have res: "posix_normpath p = (if q = [] then ''.'' else q)"
    by (simp only: posix_normpath_def Let_def False if_False q_def cs_def k_def)
  have norm: "normal_rev k (rev cs)"
    unfolding cs_def using foldl_norm_step_normal [of k "[]" "split_sep p"] split_sep_no_slash
    by simp
  show ?thesis
  proof (cases "cs = []")
    case True
    from k2 consider "k = 0" | "k = 1" | "k = 2" by linarith
    then show ?thesis
      using True res
      by cases (simp_all add: q_def posix_normpath_def initial_slashes_def norm_step_def numeral_2_eq_2)
  next
    case nonempty: False
    have cl: "\<forall>c\<in>set cs. clean c" using norm normal_rev_clean [of k "rev cs"] by simp
    then have ns: "\<forall>c\<in>set cs. CHR ''/'' \<notin> set c" by (simp add: clean_def)
    from nonempty cl obtain x xs where j: "join_sep cs = x # xs" "x \<noteq> CHR ''/''"
      using join_sep_hd [of cs] by auto
    then have qne: "q \<noteq> []" by (simp add: q_def)
    have ik: "initial_slashes q = k"
      unfolding q_def using initial_slashes_result [OF k2 j] .
    have "split_sep q = replicate k [] @ cs"
      unfolding q_def by (simp add: split_sep_slashes split_join [OF nonempty ns])
    moreover have "foldl (norm_step k) [] (replicate k [] @ cs) = foldl (norm_step k) [] cs"
      by (rule foldl_norm_step_empties)
    moreover have "foldl (norm_step k) [] cs = cs"
      using foldl_norm_step_id [of k "[]" cs] norm by simp
    ultimately have "foldl (norm_step k) [] (split_sep q) = cs"
      by simp
    then have "posix_normpath q =
        (if replicate k CHR ''/'' @ join_sep cs = [] then ''.''
         else replicate k CHR ''/'' @ join_sep cs)"
      using qne ik by (simp add: posix_normpath_def Let_def)
    then have "posix_normpath q = q"
      using qne by (simp add: q_def)
    then show ?thesis using res qne by simp
  qed
qed

section \<open>The small instance meets what the libraries are relied on for\<close>

lemma demo_b64_roundtrip: "b64_roundtrip demo_lib"
  by (simp add: b64_roundtrip_def demo_lib_def demo_b64decode_def)

lemma demo_normpath_idempotent: "normpath_idempotent demo_lib"
  by (simp add: normpath_idempotent_def demo_lib_def posix_normpath_idem)

lemma demo_pss_correct: "pss_correct demo_lib priv"
  by (simp add: pss_correct_def demo_lib_def)

lemma demo_pss_salt_injective: "pss_salt_injective demo_lib priv"
  by (simp add: pss_salt_injective_def demo_lib_def)

lemma demo_paths:
  "posix_normpath signatures_file = ''digital_keys/signatures.json''"
  "posix_normpath private_key_path = ''digital_keys/private_key.pem''"
  "posix_normpath public_key_path = ''digital_keys/public_key.pem''"
  "posix_normpath certificate_path = ''digital_keys/certificate.pem''"
  "posix_normpath ''a.txt'' = ''a.txt''"
  "posix_normpath ''./a.txt'' = ''a.txt''"
  by (simp_all add: signatures_file_def private_key_path_def public_key_path_def
      certificate_path_def path_join_def keys_folder_def posix_normpath_def
      initial_slashes_def norm_step_def)

lemma demo_module_files_distinct: "module_files_distinct demo_lib"
  by (simp add: module_files_distinct_def demo_lib_def demo_paths)

section \<open>The ledger as a dictionary\<close>

lemma map_of_dict_set: "map_of (dict_set k v l) k = Some v"
  by (induction l) auto

lemma dict_get_dict_set: "dict_get (dict_set k v l) k = Some v"
  by (simp add: dict_get_def map_of_dict_set)

lemma find_signature_None:
  "find_signature env l np = None \<longleftrightarrow>
     (\<forall>(k, sg)\<in>set l. normpath env (document_path sg) \<noteq> np)"
proof (induction l)
  case Nil
  then show ?case by simp
next
  case (Cons a l)
  obtain k sg where a: "a = (k, sg)" by (cases a)
  show ?case unfolding a using Cons.IH by simp
qed

lemma find_signature_first:
  assumes "\<forall>(k, sg)\<in>set pre. normpath env (document_path sg) \<noteq> np"
    and "normpath env (document_path r) = np"
  shows "find_signature env (pre @ (k, r) # post) np = Some r"
  using assms by (induction pre) auto

lemma find_signature_dict_set:
  "\<forall>(k, sg)\<in>set (takeWhile (\<lambda>(k, sg). k \<noteq> sid) l). normpath env (document_path sg) \<noteq> np \<Longrightarrow>
   normpath env (document_path sd) = np \<Longrightarrow>
   find_signature env (dict_set sid sd l) np = Some sd"
proof (induction l)
  case Nil
  then show ?case by simp
next
  case (Cons a l)
  obtain k sg where a: "a = (k, sg)" by (cases a)
  show ?case
  proof (cases "k = sid")
    case True
    then show ?thesis using Cons.prems(2) by (simp add: a)
  next
    case False
    then have "normpath env (document_path sg) \<noteq> np"
      and "\<forall>(k, sg)\<in>set (takeWhile (\<lambda>(k, sg). k \<noteq> sid) l).
             normpath env (document_path sg) \<noteq> np"
      using Cons.prems(1) by (simp_all add: a)
    then show ?thesis using False Cons.IH Cons.prems(2) by (simp add: a)
  qed
qed

lemma find_signature_cong:
  "normpath env' = normpath env \<Longrightarrow> find_signature env' l np = find_signature env l np"
  by (induction l) auto

section \<open>What a successful signing call returns and stores\<close>

lemma sign_document_ok:
  assumes "read_file env (files st) path = Inr D" and "load_private_key env st = Inr priv"
  shows "sign_document env salt now1 now2 st path info =
     (Inr [(''success'', PyBool True),
           (''signature_id'', PyStr (''SIG-'' @ strftime_compact now1)),
           (''signature'', PyStr (b64encode env (pss_sign env priv salt (sha256 env D)))),
           (''timestamp'', PyStr (isoformat now2)),
           (''signer'', PyStr (get_default info ''name'' [])),
           (''message'', PyStr
              ''Document signed successfully with Vietnamese digital signature standard'')],
      save_signatures env
        (st\<lparr>signatures :=
           dict_set (''SIG-'' @ strftime_compact now1)
             (new_signature_data env (''SIG-'' @ strftime_compact now1) path info
                (b64encode env (pss_sign env priv salt (sha256 env D))) (sha256 env D) now2)
             (signatures st)\<rparr>))"
proof -
  from assms(1) have "path_exists env (files st) path"
    by (auto simp: read_file_def path_exists_def split: option.splits)
  then show ?thesis
    using assms by (simp add: sign_document_def Let_def new_signature_data_def)
qed

lemma sign_document_successD:
  assumes "result_field (fst (sign_document env salt now1 now2 st path info)) ''success'' =
             Some (PyBool True)"
  shows "\<exists>D priv. read_file env (files st) path = Inr D \<and> load_private_key env st = Inr priv"
  using assms
  by (auto simp: sign_document_def result_field_def dict_get_def Let_def
      split: if_splits sum.splits)

section \<open>Concrete runs\<close>

lemma zero_pad_2: "zero_pad 2 n = [digit (n div 10), digit n]"
proof -
  have "(2::nat) = Suc (Suc 0)" by simp
  then show ?thesis by (simp only: zero_pad.simps append.simps)
qed

lemma zero_pad_4:
  "zero_pad 4 n =
     [digit (n div 10 div 10 div 10), digit (n div 10 div 10), digit (n div 10), digit n]"
proof -
  have "(4::nat) = Suc (Suc (Suc (Suc 0)))" by simp
  then show ?thesis by (simp only: zero_pad.simps append.simps)
qed

lemma zero_pad_6:
  "zero_pad 6 n =
     [digit (n div 10 div 10 div 10 div 10 div 10), digit (n div 10 div 10 div 10 div 10),
      digit (n div 10 div 10 div 10), digit (n div 10 div 10), digit (n div 10), digit n]"
proof -
  have "(6::nat) = Suc (Suc (Suc (Suc (Suc (Suc 0)))))" by simp
  then show ?thesis by (simp only: zero_pad.simps append.simps)
qed

lemma demo_b_txt: "posix_normpath ''b.txt'' = ''b.txt''"
  by (simp add: posix_normpath_def initial_slashes_def norm_step_def)

lemmas demo_eval =
  demo_lib_def demo_paths demo_b_txt demo_disk_def demo_state_def demo_pem_load_def
  demo_b64decode_def demo_signer_def demo_now_def demo_record_def
  path_exists_def read_file_def write_file_def
  load_private_key_def load_public_key_def save_signatures_def new_signature_data_def
  get_default_def strftime_compact_def isoformat_def digit_def zero_pad_2 zero_pad_4 zero_pad_6
  result_field_def dict_get_def check_signature_def

lemma demo_signed_signatures:
  "signatures (demo_signed c) = [(''SIG-20240115120000'', demo_record ''SIG-20240115120000'' ''a.txt'' c)]"
  by (simp add: demo_signed_def sign_document_def Let_def demo_eval)

lemma demo_signed_files:
  "files (demo_signed c) = (demo_disk c)(''digital_keys/signatures.json'' \<mapsto> ''{...}'')"
  by (simp add: demo_signed_def sign_document_def Let_def demo_eval)

lemma demo_sign_success:
  "result_field (fst (sign_document demo_lib ''s1'' (demo_now 0 1) (demo_now 0 2)
       (demo_state c) ''a.txt'' demo_signer)) ''success'' = Some (PyBool True)"
  by (simp add: sign_document_def Let_def demo_eval)

lemma demo_identity: "identity_on_disk demo_lib (demo_state c) ''sk''"
  by (simp add: identity_on_disk_def demo_eval)

lemma demo_sign_result:
  "sign_document demo_lib ''s1'' (demo_now 0 1) (demo_now 0 2) (demo_state c) ''a.txt'' demo_signer =
     (Inr [(''success'', PyBool True),
           (''signature_id'', PyStr ''SIG-20240115120000''),
           (''signature'', PyStr (''ks'' @ rev c @ ''s1='')),
           (''timestamp'', PyStr ''2024-01-15T12:00:00.000002''),
           (''signer'', PyStr ''Acme''),
           (''message'', PyStr
              ''Document signed successfully with Vietnamese digital signature standard'')],
      demo_signed c)"
proof -
  have "fst (sign_document demo_lib ''s1'' (demo_now 0 1) (demo_now 0 2) (demo_state c)
               ''a.txt'' demo_signer) =
     Inr [(''success'', PyBool True),
           (''signature_id'', PyStr ''SIG-20240115120000''),
           (''signature'', PyStr (''ks'' @ rev c @ ''s1='')),
           (''timestamp'', PyStr ''2024-01-15T12:00:00.000002''),
           (''signer'', PyStr ''Acme''),
           (''message'', PyStr
              ''Document signed successfully with Vietnamese digital signature standard'')]"
    by (simp add: sign_document_def Let_def demo_eval)
  then show ?thesis
    by (simp add: demo_signed_def prod_eq_iff)
qed

lemma demo_edited_signatures:
  "signatures (demo_edited old new) =
     [(''SIG-20240115120000'', demo_record ''SIG-20240115120000'' ''a.txt'' old)]"
  by (simp add: demo_edited_def demo_signed_signatures)

lemma demo_edited_files:
  "files (demo_edited old new) =
     (demo_disk new)(''digital_keys/signatures.json'' \<mapsto> ''{...}'')"
  by (simp add: demo_edited_def demo_signed_files demo_disk_def fun_eq_iff)

lemma demo_resign_success:
  "result_field
     (fst (sign_document demo_lib ''s2'' (demo_now 1 1) (demo_now 1 2) (demo_edited old new)
             ''a.txt'' demo_signer)) ''success'' = Some (PyBool True)"
  by (simp add: sign_document_def Let_def demo_edited_signatures demo_edited_files demo_eval)

lemma demo_resigned_signatures:
  "signatures (demo_resigned old new) =
     [(''SIG-20240115120000'', demo_record ''SIG-20240115120000'' ''a.txt'' old),
      (''SIG-20240115120001'',
       (demo_record ''SIG-20240115120001'' ''a.txt'' new)
         \<lparr>signature := ''ks'' @ rev new @ ''s2='', timestamp := ''2024-01-15T12:00:01.000002''\<rparr>)]"
  by (simp add: demo_resigned_def sign_document_def Let_def demo_edited_signatures
      demo_edited_files demo_eval)

lemma demo_resigned_files:
  "files (demo_resigned old new) =
     (demo_disk new)(''digital_keys/signatures.json'' \<mapsto> ''{...}'')"
  by (simp add: demo_resigned_def sign_document_def Let_def demo_edited_signatures
      demo_edited_files demo_eval)

section \<open>Verification: lookup, absence, and what it leaves alone\<close>

lemma load_public_key_signatures:
  "load_public_key env (st\<lparr>signatures := l\<rparr>) = load_public_key env st"
  by (simp add: load_public_key_def)

lemma check_signature_signatures:
  "check_signature env (st\<lparr>signatures := l\<rparr>) r h = check_signature env st r h"
  by (simp add: check_signature_def load_public_key_signatures split: option.splits)

text \<open>
  C4. \<open>verify_signature\<close> scans the ledger in stored order and takes the first record whose
  stored path, normalised, equals the normalised query path: when no record before
  \<open>(k, r)\<close> matches and \<open>r\<close> does, the lookup selects \<open>r\<close> and the verdict is the one
  computed from \<open>r\<close> (its stored digest, its signature, its id, signer, timestamp and
  algorithm), whatever records come before and after it; a later matching record is
  never chosen.
\<close>

theorem verify_first_match:
  assumes "\<forall>(k, sg)\<in>set pre. normpath env (document_path sg) \<noteq> normpath env ref"
    and "normpath env (document_path r) = normpath env ref"
  shows "find_signature env (pre @ (k, r) # post) (normpath env ref) = Some r \<and>
         fst (verify_signature env (st\<lparr>signatures := pre @ (k, r) # post\<rparr>) ref) =
           (case read_file env (files st) ref of
              Inl e \<Rightarrow> Inl e
            | Inr document_data \<Rightarrow>
                (case b64decode env (document_hash r) of
                   None \<Rightarrow> Inl Base64Error
                 | Some stored_hash \<Rightarrow>
                     if sha256 env document_data \<noteq> stored_hash then
                       Inr [(''valid'', PyBool False),
                            (''error'', PyStr ''Document has been modified after signing''),
                            (''integrity'', PyStr ''compromised'')]
                     else
                       (case check_signature env st r (sha256 env document_data) of
                          Inr u \<Rightarrow>
                            Inr [(''valid'', PyBool True),
                                 (''signature_id'', PyStr (signature_id r)),
                                 (''signer'', PyStr (signer_name r)),
                                 (''timestamp'', PyStr (timestamp r)),
                                 (''algorithm'', PyStr (algorithm r)),
                                 (''integrity'', PyStr ''intact''),
                                 (''message'', PyStr
                                    ''Signature is valid and complies with Vietnamese digital signature standards'')]
                        | Inl e \<Rightarrow>
                            Inr [(''valid'', PyBool False),
                                 (''error'', PyStr
                                    (''Signature verification failed: '' @ exn_str env e)),
                                 (''integrity'', PyStr ''invalid'')]))) \<and>
         fst (verify_signature env (st\<lparr>signatures := pre @ (k, r) # post\<rparr>) ref) =
         fst (verify_signature env (st\<lparr>signatures := [(k, r)]\<rparr>) ref)"
proof -
  have a: "find_signature env (pre @ (k, r) # post) (normpath env ref) = Some r"
    using assms by (rule find_signature_first)
  have b: "find_signature env [(k, r)] (normpath env ref) = Some r"
    using assms(2) by simp
  have c: "fst (verify_signature env (st\<lparr>signatures := l\<rparr>) ref) =
           (case read_file env (files st) ref of
              Inl e \<Rightarrow> Inl e
            | Inr document_data \<Rightarrow>
                (case b64decode env (document_hash r) of
                   None \<Rightarrow> Inl Base64Error
                 | Some stored_hash \<Rightarrow>
                     if sha256 env document_data \<noteq> stored_hash then
                       Inr [(''valid'', PyBool False),
                            (''error'', PyStr ''Document has been modified after signing''),
                            (''integrity'', PyStr ''compromised'')]
                     else
                       (case check_signature env st r (sha256 env document_data) of
                          Inr u \<Rightarrow>
                            Inr [(''valid'', PyBool True),
                                 (''signature_id'', PyStr (signature_id r)),
                                 (''signer'', PyStr (signer_name r)),
                                 (''timestamp'', PyStr (timestamp r)),
                                 (''algorithm'', PyStr (algorithm r)),
                                 (''integrity'', PyStr ''intact''),
                                 (''message'', PyStr
                                    ''Signature is valid and complies with Vietnamese digital signature standards'')]
                        | Inl e \<Rightarrow>
                            Inr [(''valid'', PyBool False),
                                 (''error'', PyStr
                                    (''Signature verification failed: '' @ exn_str env e)),
                                 (''integrity'', PyStr ''invalid'')])))"
    if "find_signature env l (normpath env ref) = Some r" for l
    using that
    by (simp add: verify_signature_def check_signature_signatures Let_def
        split: sum.splits option.splits)
  from c [OF a] c [OF b] a show ?thesis by simp
qed

text \<open>
  A ledger with a record for another path, then a record of \<open>v1\<close> for \<open>a.txt\<close>, then a
  record of \<open>v2\<close> for \<open>a.txt\<close>. While the file holds \<open>v1\<close> the verdict is valid and names
  the second record; while it holds \<open>v2\<close> the verdict is that the document was modified,
  although the third record is a record of \<open>v2\<close>.
\<close>

theorem verify_first_match_witness:
  "fst (verify_signature demo_lib
          ((demo_state ''v1'')\<lparr>signatures :=
             [(''SIG-1'', demo_record ''SIG-1'' ''b.txt'' ''x'')] @
             (''SIG-2'', demo_record ''SIG-2'' ''a.txt'' ''v1'') #
             [(''SIG-3'', demo_record ''SIG-3'' ''a.txt'' ''v2'')]\<rparr>) ''./a.txt'') =
     Inr [(''valid'', PyBool True),
          (''signature_id'', PyStr ''SIG-2''),
          (''signer'', PyStr ''Acme''),
          (''timestamp'', PyStr ''2024-01-15T12:00:00.000002''),
          (''algorithm'', PyStr ''RSA-PSS-SHA256''),
          (''integrity'', PyStr ''intact''),
          (''message'', PyStr
             ''Signature is valid and complies with Vietnamese digital signature standards'')] \<and>
   fst (verify_signature demo_lib
          ((demo_state ''v2'')\<lparr>signatures :=
             [(''SIG-1'', demo_record ''SIG-1'' ''b.txt'' ''x'')] @
             (''SIG-2'', demo_record ''SIG-2'' ''a.txt'' ''v1'') #
             [(''SIG-3'', demo_record ''SIG-3'' ''a.txt'' ''v2'')]\<rparr>) ''./a.txt'') =
     Inr [(''valid'', PyBool False),
          (''error'', PyStr ''Document has been modified after signing''),
          (''integrity'', PyStr ''compromised'')]"
proof -
  have h1: "\<forall>(k, sg)\<in>set [(''SIG-1'', demo_record ''SIG-1'' ''b.txt'' ''x'')].
      normpath demo_lib (document_path sg) \<noteq> normpath demo_lib ''./a.txt''"
    by (simp add: demo_eval)
  have h2: "normpath demo_lib (document_path (demo_record ''SIG-2'' ''a.txt'' ''v1'')) =
     normpath demo_lib ''./a.txt''"
    by (simp add: demo_eval)
  note th = verify_first_match [OF h1 h2, of "''SIG-2''"
      "[(''SIG-3'', demo_record ''SIG-3'' ''a.txt'' ''v2'')]"]
  have 1: "fst (verify_signature demo_lib
          ((demo_state ''v1'')\<lparr>signatures :=
             [(''SIG-1'', demo_record ''SIG-1'' ''b.txt'' ''x'')] @
             (''SIG-2'', demo_record ''SIG-2'' ''a.txt'' ''v1'') #
             [(''SIG-3'', demo_record ''SIG-3'' ''a.txt'' ''v2'')]\<rparr>) ''./a.txt'') =
     Inr [(''valid'', PyBool True),
          (''signature_id'', PyStr ''SIG-2''),
          (''signer'', PyStr ''Acme''),
          (''timestamp'', PyStr ''2024-01-15T12:00:00.000002''),
          (''algorithm'', PyStr ''RSA-PSS-SHA256''),
          (''integrity'', PyStr ''intact''),
          (''message'', PyStr
             ''Signature is valid and complies with Vietnamese digital signature standards'')]"
    by (subst th [of "demo_state ''v1''", THEN conjunct2, THEN conjunct1])
       (simp add: demo_eval)
  have 2: "fst (verify_signature demo_lib
          ((demo_state ''v2'')\<lparr>signatures :=
             [(''SIG-1'', demo_record ''SIG-1'' ''b.txt'' ''x'')] @
             (''SIG-2'', demo_record ''SIG-2'' ''a.txt'' ''v1'') #
             [(''SIG-3'', demo_record ''SIG-3'' ''a.txt'' ''v2'')]\<rparr>) ''./a.txt'') =
     Inr [(''valid'', PyBool False),
          (''error'', PyStr ''Document has been modified after signing''),
          (''integrity'', PyStr ''compromised'')]"
    by (subst th [of "demo_state ''v2''", THEN conjunct2, THEN conjunct1])
       (simp add: demo_eval)
  from 1 2 show ?thesis by (rule conjI)
qed

text \<open>
  C5, as amended. When no record of the ledger has a stored path that normalises to the
  normalised query path, \<open>verify_signature\<close> returns the dictionary
  \<open>{'valid': False, 'error': 'No signature found for this document'}\<close> and leaves the
  state as it was; the dictionary has no \<open>integrity\<close> key.
\<close>

theorem verify_not_found:
  assumes "\<forall>(k, sg)\<in>set (signatures st). normpath env (document_path sg) \<noteq> normpath env ref"
  shows "verify_signature env st ref =
           (Inr [(''valid'', PyBool False),
                 (''error'', PyStr ''No signature found for this document'')], st) \<and>
         result_field (fst (verify_signature env st ref)) ''integrity'' = None"
proof -
  have "find_signature env (signatures st) (normpath env ref) = None"
    using assms by (simp add: find_signature_None)
  then show ?thesis
    by (simp add: verify_signature_def result_field_def dict_get_def)
qed

theorem verify_not_found_witness:
  "find_signature demo_lib (signatures (demo_signed ''v1'')) (normpath demo_lib ''b.txt'') = None \<and>
   verify_signature demo_lib (demo_signed ''v1'') ''b.txt'' =
     (Inr [(''valid'', PyBool False),
           (''error'', PyStr ''No signature found for this document'')], demo_signed ''v1'')"
proof -
  have h: "\<forall>(k, sg)\<in>set (signatures (demo_signed ''v1'')).
      normpath demo_lib (document_path sg) \<noteq> normpath demo_lib ''b.txt''"
    by (simp add: demo_signed_signatures demo_eval)
  from h have "find_signature demo_lib (signatures (demo_signed ''v1''))
      (normpath demo_lib ''b.txt'') = None"
    by (simp only: find_signature_None)
  with verify_not_found [OF h] show ?thesis by blast
qed

text \<open>
  The claim as it was stated asks for an \<open>integrity\<close> field equal to \<open>unknown\<close>. On a
  fresh object, whose ledger is empty, the verdict for \<open>a.txt\<close> has no such field.
\<close>

theorem verify_not_found_integrity_counterexample:
  "result_field (fst (verify_signature demo_lib (demo_state ''v1'') ''a.txt'')) ''integrity''
     \<noteq> Some (PyStr ''unknown'')"
  by (simp add: verify_signature_def demo_state_def result_field_def dict_get_def)

text \<open>
  C7. \<open>verify_signature\<close> returns the state it was given, ledger and files, on every path
  through it, also when it raises; and the record a successful \<open>sign_document\<close> stores
  under the id it allocated has status \<open>valid\<close>.
\<close>

theorem verify_read_only:
  "snd (verify_signature env st ref) = st \<and>
   (result_field (fst (sign_document env salt now1 now2 st path info)) ''success'' =
      Some (PyBool True)
    \<longrightarrow> map_option status
          (dict_get (signatures (snd (sign_document env salt now1 now2 st path info)))
             (''SIG-'' @ strftime_compact now1)) = Some ''valid'')"
proof (intro conjI impI)
  show "snd (verify_signature env st ref) = st"
    by (simp add: verify_signature_def Let_def split: option.splits sum.splits)
next
  assume "result_field (fst (sign_document env salt now1 now2 st path info)) ''success'' =
            Some (PyBool True)"
  then obtain D priv where
    "read_file env (files st) path = Inr D" "load_private_key env st = Inr priv"
    using sign_document_successD by blast
  then show "map_option status
      (dict_get (signatures (snd (sign_document env salt now1 now2 st path info)))
         (''SIG-'' @ strftime_compact now1)) = Some ''valid''"
    by (simp add: sign_document_ok save_signatures_def dict_get_dict_set new_signature_data_def)
qed

theorem verify_read_only_witness:
  "result_field (fst (sign_document demo_lib ''s1'' (demo_now 0 1) (demo_now 0 2)
       (demo_state ''v1'') ''a.txt'' demo_signer)) ''success'' = Some (PyBool True) \<and>
   snd (verify_signature demo_lib (demo_state ''v1'') ''a.txt'') = demo_state ''v1'' \<and>
   map_option status
     (dict_get (signatures (snd (sign_document demo_lib ''s1'' (demo_now 0 1) (demo_now 0 2)
        (demo_state ''v1'') ''a.txt'' demo_signer))) (''SIG-'' @ strftime_compact (demo_now 0 1)))
     = Some ''valid''"
  using verify_read_only [of demo_lib "demo_state ''v1''" "''a.txt''" "''s1''" "demo_now 0 1"
        "demo_now 0 2" "''a.txt''" demo_signer] demo_sign_success [of "''v1''"]
  by blast

section \<open>Verification: the digest and the signature\<close>

lemma read_file_after_save:
  "resolve env p \<noteq> resolve env signatures_file \<Longrightarrow>
   read_file env (files (save_signatures env st)) p = read_file env (files st) p"
  by (simp add: save_signatures_def read_file_def write_file_def)

lemma load_public_key_after_save:
  "resolve env public_key_path \<noteq> resolve env signatures_file \<Longrightarrow>
   load_public_key env (save_signatures env st) = load_public_key env st"
  by (simp add: load_public_key_def read_file_after_save)

lemma signatures_save: "signatures (save_signatures env st) = signatures st"
  by (simp add: save_signatures_def)

lemma verify_signature_digest_mismatch:
  assumes "find_signature env (signatures st) (normpath env ref) = Some sg"
    and "b64decode env (document_hash sg) = Some stored"
    and "read_file env (files st) ref = Inr D'"
    and "sha256 env D' \<noteq> stored"
  shows "verify_signature env st ref =
           (Inr [(''valid'', PyBool False),
                 (''error'', PyStr ''Document has been modified after signing''),
                 (''integrity'', PyStr ''compromised'')], st)"
  using assms by (simp add: verify_signature_def Let_def)

text \<open>When a record is selected and the files are readable, the verdict is valid exactly when
  that record verifies for the document.\<close>

lemma verify_valid_iff:
  assumes "find_signature env (signatures st) (normpath env ref) = Some sg"
    and "read_file env (files st) ref = Inr D"
    and "load_public_key env st = Inr pub"
  shows "result_field (fst (verify_signature env st ref)) ''valid'' = Some (PyBool True) \<longleftrightarrow>
         record_verifies env pub sg D"
  using assms
  by (auto simp: verify_signature_def check_signature_def record_verifies_def result_field_def
      dict_get_def Let_def split: option.splits)

lemma new_record_verifies:
  assumes "b64_roundtrip env" and "pss_correct env priv"
    and "length salt = pss_max_salt_length"
  shows "record_verifies env (public_key env priv)
           (new_signature_data env sid ref info
              (b64encode env (pss_sign env priv salt (sha256 env D))) (sha256 env D) now) D"
  using assms
  by (simp add: record_verifies_def new_signature_data_def b64_roundtrip_def pss_correct_def)

text \<open>Where the lookup stops after \<open>d[sid] = sd\<close>: at the first match ahead of \<open>sid\<close>, if
  there is one, and at the new record otherwise.\<close>

lemma find_signature_dict_set_cases:
  "normpath env (document_path sd) = np \<Longrightarrow>
   find_signature env (dict_set sid sd l) np =
     (case find_signature env (takeWhile (\<lambda>(k, sg). k \<noteq> sid) l) np of
        None \<Rightarrow> Some sd
      | Some sg \<Rightarrow> Some sg)"
proof (induction l)
  case Nil
  then show ?case by simp
next
  case (Cons a l)
  obtain k sg where a: "a = (k, sg)" by (cases a)
  show ?case using Cons by (simp add: a)
qed

text \<open>
  C1, as amended. Let the libraries keep their contracts (base64 decodes what it encoded,
  \<open>normpath\<close> is idempotent, a PSS signature made with a salt of the maximal length
  verifies under the public half of its key, the module's four files are four files), let
  the key files hold a matching pair, and let \<open>ref\<close> name a readable document \<open>D\<close> that
  is not the ledger file itself. Then \<open>sign_document\<close> succeeds, and \<open>verify_signature\<close> on
  the resulting state returns the valid verdict exactly when the first record stored
  ahead of the place the new record takes whose path normalises to that of \<open>ref\<close>, if
  there is one, stores the digest of \<open>D\<close> and a signature that verifies for it.
\<close>

theorem sign_then_verify:
  assumes lib: "b64_roundtrip env" "normpath_idempotent env" "pss_correct env priv"
      "module_files_distinct env"
    and salt: "length salt = pss_max_salt_length"
    and ident: "identity_on_disk env st priv"
    and doc: "read_file env (files st) ref = Inr D"
    and not_ledger: "resolve env ref \<noteq> resolve env signatures_file"
  shows "result_field (fst (sign_document env salt now1 now2 st ref info)) ''success'' =
           Some (PyBool True) \<and>
         (result_field
            (fst (verify_signature env (snd (sign_document env salt now1 now2 st ref info)) ref))
            ''valid'' = Some (PyBool True) \<longleftrightarrow>
          (\<forall>sg. find_signature env
                  (takeWhile (\<lambda>(k, sg). k \<noteq> ''SIG-'' @ strftime_compact now1) (signatures st))
                  (normpath env ref) = Some sg \<longrightarrow>
                record_verifies env (public_key env priv) sg D))"
proof -
  let ?sid = "''SIG-'' @ strftime_compact now1"
  let ?ahead = "find_signature env (takeWhile (\<lambda>(k, sg). k \<noteq> ?sid) (signatures st))
      (normpath env ref)"
  from ident have priv: "load_private_key env st = Inr priv"
    and pub: "load_public_key env st = Inr (public_key env priv)"
    by (simp_all add: identity_on_disk_def)
  define sd where "sd = new_signature_data env ?sid ref info
      (b64encode env (pss_sign env priv salt (sha256 env D))) (sha256 env D) now2"
  define st' where "st' = snd (sign_document env salt now1 now2 st ref info)"
  have st': "st' = save_signatures env (st\<lparr>signatures := dict_set ?sid sd (signatures st)\<rparr>)"
    by (simp add: st'_def sign_document_ok [OF doc priv] sd_def)
  have success: "result_field (fst (sign_document env salt now1 now2 st ref info)) ''success'' =
      Some (PyBool True)"
    by (simp add: sign_document_ok [OF doc priv] result_field_def dict_get_def)
  have "normpath env (document_path sd) = normpath env ref"
    using lib(2) by (simp add: sd_def new_signature_data_def normpath_idempotent_def)
  then have found: "find_signature env (signatures st') (normpath env ref) =
      (case ?ahead of None \<Rightarrow> Some sd | Some sg \<Rightarrow> Some sg)"
    by (simp add: st' signatures_save find_signature_dict_set_cases)
  have doc': "read_file env (files st') ref = Inr D"
    using doc not_ledger by (simp add: st' read_file_after_save)
  have "resolve env public_key_path \<noteq> resolve env signatures_file"
    using lib(4) by (auto simp: module_files_distinct_def)
  then have pub': "load_public_key env st' = Inr (public_key env priv)"
    using pub by (simp add: st' load_public_key_after_save load_public_key_signatures)
  have new: "record_verifies env (public_key env priv) sd D"
    unfolding sd_def using lib(1,3) salt by (rule new_record_verifies)
  have "result_field (fst (verify_signature env st' ref)) ''valid'' = Some (PyBool True) \<longleftrightarrow>
      (\<forall>sg. ?ahead = Some sg \<longrightarrow> record_verifies env (public_key env priv) sg D)"
  proof (cases ?ahead)
    case None
    with found have "find_signature env (signatures st') (normpath env ref) = Some sd" by simp
    from verify_valid_iff [OF this doc' pub'] new None show ?thesis by simp
  next
    case (Some sg)
    with found have "find_signature env (signatures st') (normpath env ref) = Some sg" by simp
    from verify_valid_iff [OF this doc' pub'] Some show ?thesis by simp
  qed
  with success show ?thesis unfolding st'_def by blast
qed

text \<open>
  The object signed \<open>a.txt\<close> when it read \<open>v1\<close>, and signs the unchanged document again one
  second later: the lookup stops at the record of the first signing, which verifies for
  \<open>v1\<close>, and the verdict is valid.
\<close>

theorem sign_then_verify_witness:
  "result_field
     (fst (sign_document demo_lib (demo_salt CHR ''a'') (demo_now 1 1) (demo_now 1 2)
             (demo_edited ''v1'' ''v1'') ''a.txt'' demo_signer)) ''success'' = Some (PyBool True) \<and>
   find_signature demo_lib
     (takeWhile (\<lambda>(k, sg). k \<noteq> ''SIG-'' @ strftime_compact (demo_now 1 1))
        (signatures (demo_edited ''v1'' ''v1'')))
     (normpath demo_lib ''a.txt'') = Some (demo_record ''SIG-20240115120000'' ''a.txt'' ''v1'') \<and>
   record_verifies demo_lib (public_key demo_lib ''sk'')
     (demo_record ''SIG-20240115120000'' ''a.txt'' ''v1'') ''v1'' \<and>
   result_field
     (fst (verify_signature demo_lib
        (snd (sign_document demo_lib (demo_salt CHR ''a'') (demo_now 1 1) (demo_now 1 2)
                (demo_edited ''v1'' ''v1'') ''a.txt'' demo_signer)) ''a.txt''))
     ''valid'' = Some (PyBool True)"
proof -
  have salt: "length (demo_salt CHR ''a'') = pss_max_salt_length"
    by (simp add: demo_salt_def)
  have ident: "identity_on_disk demo_lib (demo_edited ''v1'' ''v1'') ''sk''"
    by (simp add: identity_on_disk_def demo_edited_files demo_eval)
  have doc: "read_file demo_lib (files (demo_edited ''v1'' ''v1'')) ''a.txt'' = Inr ''v1''"
    by (simp add: demo_edited_files demo_eval)
  have nl: "resolve demo_lib ''a.txt'' \<noteq> resolve demo_lib signatures_file"
    by (simp add: demo_eval)
  have ahead: "find_signature demo_lib
     (takeWhile (\<lambda>(k, sg). k \<noteq> ''SIG-'' @ strftime_compact (demo_now 1 1))
        (signatures (demo_edited ''v1'' ''v1'')))
     (normpath demo_lib ''a.txt'') = Some (demo_record ''SIG-20240115120000'' ''a.txt'' ''v1'')"
    by (simp add: demo_edited_signatures demo_eval)
  have ver: "record_verifies demo_lib (public_key demo_lib ''sk'')
     (demo_record ''SIG-20240115120000'' ''a.txt'' ''v1'') ''v1''"
    by (simp add: record_verifies_def demo_eval)
  note th = sign_then_verify [OF demo_b64_roundtrip demo_normpath_idempotent demo_pss_correct
      demo_module_files_distinct salt ident doc nl,
      of "demo_now 1 1" "demo_now 1 2" demo_signer]
  from th ahead ver have "result_field
     (fst (verify_signature demo_lib
        (snd (sign_document demo_lib (demo_salt CHR ''a'') (demo_now 1 1) (demo_now 1 2)
                (demo_edited ''v1'' ''v1'') ''a.txt'' demo_signer)) ''a.txt''))
     ''valid'' = Some (PyBool True)"
    by auto
  with th ahead ver show ?thesis by blast
qed

text \<open>
  The claim as it was stated puts no condition on the records the ledger held. The object
  signed \<open>a.txt\<close> when it read \<open>v1\<close>; the document was rewritten to \<open>v2\<close> and signed again
  one second later, with success. The lookup still stops at the first record, the one of
  \<open>v1\<close>, and the verdict on the document just signed is that it was modified.
\<close>

theorem sign_then_verify_counterexample:
  "result_field
     (fst (sign_document demo_lib ''s2'' (demo_now 1 1) (demo_now 1 2) (demo_edited ''v1'' ''v2'')
             ''a.txt'' demo_signer)) ''success'' = Some (PyBool True) \<and>
   fst (verify_signature demo_lib (demo_resigned ''v1'' ''v2'') ''a.txt'') =
     Inr [(''valid'', PyBool False),
          (''error'', PyStr ''Document has been modified after signing''),
          (''integrity'', PyStr ''compromised'')]"
proof
  show "result_field
     (fst (sign_document demo_lib ''s2'' (demo_now 1 1) (demo_now 1 2) (demo_edited ''v1'' ''v2'')
             ''a.txt'' demo_signer)) ''success'' = Some (PyBool True)"
    by (rule demo_resign_success)
  show "fst (verify_signature demo_lib (demo_resigned ''v1'' ''v2'') ''a.txt'') =
     Inr [(''valid'', PyBool False),
          (''error'', PyStr ''Document has been modified after signing''),
          (''integrity'', PyStr ''compromised'')]"
    by (simp add: verify_signature_def Let_def demo_resigned_signatures demo_resigned_files
        demo_eval)
qed

text \<open>
  C2, as amended. When the record the lookup selects for \<open>ref\<close> is a record of \<open>D\<close> (its
  stored digest is the encoded SHA-256 of \<open>D\<close>) and the file now holds \<open>D'\<close> with another
  digest, \<open>verify_signature\<close> returns the verdict \<open>compromised\<close> and leaves the state as it
  was. The verdict is the same whatever the RSA verification and the public key loader
  would answer: neither is consulted.
\<close>

theorem verify_tampered:
  assumes "b64_roundtrip env"
    and "find_signature env (signatures st) (normpath env ref) = Some sg"
    and "document_hash sg = b64encode env (sha256 env D)"
    and "read_file env (files st) ref = Inr D'"
    and "sha256 env D' \<noteq> sha256 env D"
  shows "verify_signature (env\<lparr>pss_verify := v, load_pem_public_key := ld\<rparr>) st ref =
           (Inr [(''valid'', PyBool False),
                 (''error'', PyStr ''Document has been modified after signing''),
                 (''integrity'', PyStr ''compromised'')], st)"
proof (rule verify_signature_digest_mismatch)
  let ?env = "env\<lparr>pss_verify := v, load_pem_public_key := ld\<rparr>"
  show "find_signature ?env (signatures st) (normpath ?env ref) = Some sg"
    using assms(2) find_signature_cong [of ?env env] by simp
  show "b64decode ?env (document_hash sg) = Some (sha256 env D)"
    using assms(1,3) by (simp add: b64_roundtrip_def)
  show "read_file ?env (files st) ref = Inr D'"
    using assms(4) by (simp add: read_file_def)
  show "sha256 ?env D' \<noteq> sha256 env D"
    using assms(5) by simp
qed

theorem verify_tampered_witness:
  "verify_signature demo_lib (demo_edited ''v1'' ''v2'') ''a.txt'' =
     (Inr [(''valid'', PyBool False),
           (''error'', PyStr ''Document has been modified after signing''),
           (''integrity'', PyStr ''compromised'')],
      demo_edited ''v1'' ''v2'')"
proof -
  have 1: "find_signature demo_lib (signatures (demo_edited ''v1'' ''v2''))
             (normpath demo_lib ''a.txt'') =
             Some (demo_record ''SIG-20240115120000'' ''a.txt'' ''v1'')"
    by (simp add: demo_edited_signatures demo_eval)
  have 2: "document_hash (demo_record ''SIG-20240115120000'' ''a.txt'' ''v1'') =
             b64encode demo_lib (sha256 demo_lib ''v1'')"
    by (simp add: demo_eval)
  have 3: "read_file demo_lib (files (demo_edited ''v1'' ''v2'')) ''a.txt'' = Inr ''v2''"
    by (simp add: demo_edited_files demo_eval)
  have 4: "sha256 demo_lib ''v2'' \<noteq> sha256 demo_lib ''v1''"
    by (simp add: demo_eval)
  have 5: "demo_lib\<lparr>pss_verify := pss_verify demo_lib,
             load_pem_public_key := load_pem_public_key demo_lib\<rparr> = demo_lib"
    by simp
  from verify_tampered [OF demo_b64_roundtrip 1 2 3 4,
      where v = "pss_verify demo_lib" and ld = "load_pem_public_key demo_lib"]
  show ?thesis by (simp only: 5)
qed

text \<open>
  The claim as it was stated holds for every signed document. The object signed \<open>a.txt\<close>
  when it read \<open>v2\<close>; the document was rewritten to \<open>v1\<close> and signed again. One byte of the
  document is then changed, making it \<open>v2\<close>: the lookup stops at the first record, whose
  digest is that of \<open>v2\<close>, and the verdict on the mutated document is valid.
\<close>

theorem verify_tampered_counterexample:
  "result_field
     (fst (sign_document demo_lib ''s2'' (demo_now 1 1) (demo_now 1 2) (demo_edited ''v2'' ''v1'')
             ''a.txt'' demo_signer)) ''success'' = Some (PyBool True) \<and>
   sha256 demo_lib ''v2'' \<noteq> sha256 demo_lib ''v1'' \<and>
   result_field
     (fst (verify_signature demo_lib
        ((demo_resigned ''v2'' ''v1'')
           \<lparr>files := (files (demo_resigned ''v2'' ''v1''))(''a.txt'' \<mapsto> ''v2'')\<rparr>) ''a.txt''))
     ''valid'' = Some (PyBool True)"
proof (intro conjI)
  show "result_field
     (fst (sign_document demo_lib ''s2'' (demo_now 1 1) (demo_now 1 2) (demo_edited ''v2'' ''v1'')
             ''a.txt'' demo_signer)) ''success'' = Some (PyBool True)"
    by (rule demo_resign_success)
  show "sha256 demo_lib ''v2'' \<noteq> sha256 demo_lib ''v1''"
    by (simp add: demo_eval)
  show "result_field
     (fst (verify_signature demo_lib
        ((demo_resigned ''v2'' ''v1'')
           \<lparr>files := (files (demo_resigned ''v2'' ''v1''))(''a.txt'' \<mapsto> ''v2'')\<rparr>) ''a.txt''))
     ''valid'' = Some (PyBool True)"
    by (simp add: verify_signature_def Let_def demo_resigned_signatures demo_resigned_files
        demo_eval)
qed

section \<open>Signer metadata\<close>

text \<open>
  C10. The signer metadata is read with \<open>.get(key, '')\<close> and nothing checks it: whenever
  the document can be read and the private key loads, \<open>sign_document\<close> succeeds whatever
  the dictionary holds, and a missing \<open>name\<close>, \<open>email\<close> or \<open>tax_code\<close> key gives the empty
  string in the stored record (and, for \<open>name\<close>, in the \<open>signer\<close> field of the result).
\<close>

theorem sign_signer_defaults:
  assumes "read_file env (files st) path = Inr D" and "load_private_key env st = Inr priv"
  shows "\<exists>res st' sd.
           sign_document env salt now1 now2 st path info = (Inr res, st') \<and>
           dict_get res ''success'' = Some (PyBool True) \<and>
           dict_get (signatures st') (''SIG-'' @ strftime_compact now1) = Some sd \<and>
           (info ''name'' = None \<longrightarrow>
              signer_name sd = [] \<and> dict_get res ''signer'' = Some (PyStr [])) \<and>
           (info ''email'' = None \<longrightarrow> signer_email sd = []) \<and>
           (info ''tax_code'' = None \<longrightarrow> signer_tax_code sd = [])"
  by (simp add: sign_document_ok [OF assms] save_signatures_def dict_get_dict_set
      new_signature_data_def get_default_def)
     (simp add: dict_get_def)

theorem sign_signer_defaults_witness:
  "\<exists>res st' sd.
     sign_document demo_lib ''s1'' (demo_now 0 1) (demo_now 0 2) (demo_state ''v1'') ''a.txt''
       Map.empty = (Inr res, st') \<and>
     dict_get res ''success'' = Some (PyBool True) \<and>
     dict_get (signatures st') (''SIG-'' @ strftime_compact (demo_now 0 1)) = Some sd \<and>
     signer_name sd = [] \<and> dict_get res ''signer'' = Some (PyStr []) \<and>
     signer_email sd = [] \<and> signer_tax_code sd = []"
proof -
  have 1: "read_file demo_lib (files (demo_state ''v1'')) ''a.txt'' = Inr ''v1''"
    by (simp add: demo_eval)
  have 2: "load_private_key demo_lib (demo_state ''v1'') = Inr ''sk''"
    by (simp add: demo_eval)
  from sign_signer_defaults [OF 1 2, of "''s1''" "demo_now 0 1" "demo_now 0 2" Map.empty]
  show ?thesis by simp
qed

section \<open>Two signatures of one document\<close>

lemma b64encode_inj:
  "b64_roundtrip env \<Longrightarrow> b64encode env x = b64encode env y \<Longrightarrow> x = y"
  by (metis b64_roundtrip_def option.inject)

lemma sign_record_verifies_alone:
  assumes lib: "b64_roundtrip env" "normpath_idempotent env" "pss_correct env priv"
      "module_files_distinct env"
    and salt: "length salt = pss_max_salt_length"
    and doc: "read_file env (files st) ref = Inr D"
    and ident: "identity_on_disk env st priv"
    and not_ledger: "resolve env ref \<noteq> resolve env signatures_file"
  shows "\<exists>sd.
      result_field (fst (sign_document env salt now1 now2 st ref info)) ''signature'' =
        Some (PyStr (b64encode env (pss_sign env priv salt (sha256 env D)))) \<and>
      dict_get (signatures (snd (sign_document env salt now1 now2 st ref info)))
        (''SIG-'' @ strftime_compact now1) = Some sd \<and>
      signature sd = b64encode env (pss_sign env priv salt (sha256 env D)) \<and>
      result_field
        (fst (verify_signature env
           ((snd (sign_document env salt now1 now2 st ref info))
              \<lparr>signatures := [(''SIG-'' @ strftime_compact now1, sd)]\<rparr>) ref))
        ''valid'' = Some (PyBool True)"
proof -
  let ?sid = "''SIG-'' @ strftime_compact now1"
  from ident have priv: "load_private_key env st = Inr priv"
    and pub: "load_public_key env st = Inr (public_key env priv)"
    by (simp_all add: identity_on_disk_def)
  define sg where "sg = new_signature_data env ?sid ref info
      (b64encode env (pss_sign env priv salt (sha256 env D))) (sha256 env D) now2"
  define st' where "st' = snd (sign_document env salt now1 now2 st ref info)"
  have st': "st' = save_signatures env (st\<lparr>signatures := dict_set ?sid sg (signatures st)\<rparr>)"
    by (simp add: st'_def sign_document_ok [OF doc priv] sg_def)
  have res: "result_field (fst (sign_document env salt now1 now2 st ref info)) ''signature'' =
        Some (PyStr (b64encode env (pss_sign env priv salt (sha256 env D))))"
    by (simp add: sign_document_ok [OF doc priv] result_field_def dict_get_def)
  have stored: "dict_get (signatures st') ?sid = Some sg"
    by (simp add: st' signatures_save dict_get_dict_set)
  have sig: "signature sg = b64encode env (pss_sign env priv salt (sha256 env D))"
    by (simp add: sg_def new_signature_data_def)
  let ?alone = "st'\<lparr>signatures := [(?sid, sg)]\<rparr>"
  have "normpath env (document_path sg) = normpath env ref"
    using lib(2) by (simp add: sg_def new_signature_data_def normpath_idempotent_def)
  then have found: "find_signature env (signatures ?alone) (normpath env ref) = Some sg"
    by simp
  have doc': "read_file env (files ?alone) ref = Inr D"
    using doc not_ledger by (simp add: st' read_file_after_save)
  have "resolve env public_key_path \<noteq> resolve env signatures_file"
    using lib(4) by (auto simp: module_files_distinct_def)
  then have pub': "load_public_key env ?alone = Inr (public_key env priv)"
    using pub by (simp add: st' load_public_key_after_save load_public_key_signatures)
  have "record_verifies env (public_key env priv) sg D"
    unfolding sg_def using lib(1,3) salt by (rule new_record_verifies)
  with verify_valid_iff [OF found doc' pub']
  have "result_field (fst (verify_signature env ?alone ref)) ''valid'' = Some (PyBool True)"
    by simp
  with res stored sig show ?thesis
    unfolding st'_def by blast
qed

text \<open>
  C9. Two signing runs on the same document bytes with the same key and two different PSS
  salts of the maximal length, from any two states (the second may be the state the first
  left): under the library contracts, of which one is that a PSS signature determines its
  salt, the two returned signature strings differ, each is the signature of the record
  its run stored, and each record, taken alone as the ledger, makes \<open>verify_signature\<close>
  return the valid verdict for the document.
\<close>

theorem sign_twice_salted:
  assumes lib: "b64_roundtrip env" "normpath_idempotent env" "pss_correct env priv"
      "module_files_distinct env" "pss_salt_injective env priv"
    and len: "length salt_a = pss_max_salt_length" "length salt_b = pss_max_salt_length"
    and doc: "read_file env (files sa) ref = Inr D" "read_file env (files sb) ref = Inr D"
    and ident: "identity_on_disk env sa priv" "identity_on_disk env sb priv"
    and not_ledger: "resolve env ref \<noteq> resolve env signatures_file"
    and salts: "salt_a \<noteq> salt_b"
  shows "\<exists>sig_a sig_b rec_a rec_b.
      result_field (fst (sign_document env salt_a ta1 ta2 sa ref info)) ''signature'' =
        Some (PyStr sig_a) \<and>
      result_field (fst (sign_document env salt_b tb1 tb2 sb ref info)) ''signature'' =
        Some (PyStr sig_b) \<and>
      sig_a \<noteq> sig_b \<and>
      dict_get (signatures (snd (sign_document env salt_a ta1 ta2 sa ref info)))
        (''SIG-'' @ strftime_compact ta1) = Some rec_a \<and>
      signature rec_a = sig_a \<and>
      dict_get (signatures (snd (sign_document env salt_b tb1 tb2 sb ref info)))
        (''SIG-'' @ strftime_compact tb1) = Some rec_b \<and>
      signature rec_b = sig_b \<and>
      result_field
        (fst (verify_signature env
           ((snd (sign_document env salt_a ta1 ta2 sa ref info))
              \<lparr>signatures := [(''SIG-'' @ strftime_compact ta1, rec_a)]\<rparr>) ref))
        ''valid'' = Some (PyBool True) \<and>
      result_field
        (fst (verify_signature env
           ((snd (sign_document env salt_b tb1 tb2 sb ref info))
              \<lparr>signatures := [(''SIG-'' @ strftime_compact tb1, rec_b)]\<rparr>) ref))
        ''valid'' = Some (PyBool True)"
proof -
  let ?sig_a = "b64encode env (pss_sign env priv salt_a (sha256 env D))"
  let ?sig_b = "b64encode env (pss_sign env priv salt_b (sha256 env D))"
  from sign_record_verifies_alone [OF lib(1-4) len(1) doc(1) ident(1) not_ledger,
      of ta1 ta2 info]
  obtain rec_a where a:
    "result_field (fst (sign_document env salt_a ta1 ta2 sa ref info)) ''signature'' =
        Some (PyStr ?sig_a)"
    "dict_get (signatures (snd (sign_document env salt_a ta1 ta2 sa ref info)))
        (''SIG-'' @ strftime_compact ta1) = Some rec_a"
    "signature rec_a = ?sig_a"
    "result_field
        (fst (verify_signature env
           ((snd (sign_document env salt_a ta1 ta2 sa ref info))
              \<lparr>signatures := [(''SIG-'' @ strftime_compact ta1, rec_a)]\<rparr>) ref))
        ''valid'' = Some (PyBool True)"
    by blast
  from sign_record_verifies_alone [OF lib(1-4) len(2) doc(2) ident(2) not_ledger,
      of tb1 tb2 info]
  obtain rec_b where b:
    "result_field (fst (sign_document env salt_b tb1 tb2 sb ref info)) ''signature'' =
        Some (PyStr ?sig_b)"
    "dict_get (signatures (snd (sign_document env salt_b tb1 tb2 sb ref info)))
        (''SIG-'' @ strftime_compact tb1) = Some rec_b"
    "signature rec_b = ?sig_b"
    "result_field
        (fst (verify_signature env
           ((snd (sign_document env salt_b tb1 tb2 sb ref info))
              \<lparr>signatures := [(''SIG-'' @ strftime_compact tb1, rec_b)]\<rparr>) ref))
        ''valid'' = Some (PyBool True)"
    by blast
  have "pss_sign env priv salt_a (sha256 env D) \<noteq> pss_sign env priv salt_b (sha256 env D)"
    using lib(5) len salts unfolding pss_salt_injective_def by blast
  then have "?sig_a \<noteq> ?sig_b"
    using b64encode_inj [OF lib(1)] by blast
  with a b show ?thesis by blast
qed

lemma demo_signed_identity: "identity_on_disk demo_lib (demo_signed c) ''sk''"
  by (simp add: identity_on_disk_def demo_signed_files demo_eval)

lemma pss_max_salt_length_pos: "pss_max_salt_length \<noteq> 0"
  by (simp add: pss_max_salt_length_def)

theorem sign_twice_salted_witness:
  "\<exists>sig_a sig_b rec_a rec_b.
      result_field (fst (sign_document demo_lib (demo_salt CHR ''a'') (demo_now 0 1) (demo_now 0 2)
         (demo_state ''v1'') ''a.txt'' demo_signer)) ''signature'' = Some (PyStr sig_a) \<and>
      result_field (fst (sign_document demo_lib (demo_salt CHR ''b'') (demo_now 1 1) (demo_now 1 2)
         (demo_signed ''v1'') ''a.txt'' demo_signer)) ''signature'' = Some (PyStr sig_b) \<and>
      sig_a \<noteq> sig_b \<and>
      dict_get (signatures (snd (sign_document demo_lib (demo_salt CHR ''a'') (demo_now 0 1)
         (demo_now 0 2) (demo_state ''v1'') ''a.txt'' demo_signer)))
        (''SIG-'' @ strftime_compact (demo_now 0 1)) = Some rec_a \<and>
      signature rec_a = sig_a \<and>
      dict_get (signatures (snd (sign_document demo_lib (demo_salt CHR ''b'') (demo_now 1 1)
         (demo_now 1 2) (demo_signed ''v1'') ''a.txt'' demo_signer)))
        (''SIG-'' @ strftime_compact (demo_now 1 1)) = Some rec_b \<and>
      signature rec_b = sig_b \<and>
      result_field
        (fst (verify_signature demo_lib
           ((snd (sign_document demo_lib (demo_salt CHR ''a'') (demo_now 0 1) (demo_now 0 2)
               (demo_state ''v1'') ''a.txt'' demo_signer))
              \<lparr>signatures := [(''SIG-'' @ strftime_compact (demo_now 0 1), rec_a)]\<rparr>) ''a.txt''))
        ''valid'' = Some (PyBool True) \<and>
      result_field
        (fst (verify_signature demo_lib
           ((snd (sign_document demo_lib (demo_salt CHR ''b'') (demo_now 1 1) (demo_now 1 2)
               (demo_signed ''v1'') ''a.txt'' demo_signer))
              \<lparr>signatures := [(''SIG-'' @ strftime_compact (demo_now 1 1), rec_b)]\<rparr>) ''a.txt''))
        ''valid'' = Some (PyBool True)"
proof -
  have 1: "read_file demo_lib (files (demo_state ''v1'')) ''a.txt'' = Inr ''v1''"
    by (simp add: demo_eval)
  have 2: "read_file demo_lib (files (demo_signed ''v1'')) ''a.txt'' = Inr ''v1''"
    by (simp add: demo_signed_files demo_eval)
  have nl: "resolve demo_lib ''a.txt'' \<noteq> resolve demo_lib signatures_file"
    by (simp add: demo_eval)
  have la: "length (demo_salt CHR ''a'') = pss_max_salt_length"
    and lb: "length (demo_salt CHR ''b'') = pss_max_salt_length"
    by (simp_all add: demo_salt_def)
  have s: "demo_salt CHR ''a'' \<noteq> demo_salt CHR ''b''"
    using pss_max_salt_length_pos by (simp add: demo_salt_def)
  show ?thesis
    by (rule sign_twice_salted [OF demo_b64_roundtrip demo_normpath_idempotent demo_pss_correct
      demo_module_files_distinct demo_pss_salt_injective la lb 1 2 demo_identity
      demo_signed_identity nl s])
qed

section \<open>The signing identity\<close>

















section \<open>Where the code departs from what is claimed\<close>

text \<open>
  C3. The id of a record is \<open>SIG-\<close> followed by the time of signing to the second. Two
  successful calls within one second get the same id: the second call replaces the record
  of the first, and the ledger holds one record after both.
\<close>

theorem sign_same_second_overwrites:
  "result_field (fst (sign_document demo_lib ''s1'' (demo_now 0 1) (demo_now 0 2)
      (demo_state ''v1'') ''a.txt'' demo_signer)) ''signature_id'' =
     Some (PyStr ''SIG-20240115120000'') \<and>
   result_field (fst (sign_document demo_lib ''s2'' (demo_now 0 500000) (demo_now 0 500001)
      (demo_signed ''v1'') ''a.txt'' demo_signer)) ''success'' = Some (PyBool True) \<and>
   result_field (fst (sign_document demo_lib ''s2'' (demo_now 0 500000) (demo_now 0 500001)
      (demo_signed ''v1'') ''a.txt'' demo_signer)) ''signature_id'' =
     Some (PyStr ''SIG-20240115120000'') \<and>
   length (signatures (demo_signed ''v1'')) = 1 \<and>
   length (signatures (snd (sign_document demo_lib ''s2'' (demo_now 0 500000)
      (demo_now 0 500001) (demo_signed ''v1'') ''a.txt'' demo_signer))) = 1 \<and>
   map_option signature (dict_get (signatures (demo_signed ''v1'')) ''SIG-20240115120000'') =
     Some ''ks1vs1='' \<and>
   map_option signature
     (dict_get (signatures (snd (sign_document demo_lib ''s2'' (demo_now 0 500000)
        (demo_now 0 500001) (demo_signed ''v1'') ''a.txt'' demo_signer)))
        ''SIG-20240115120000'') = Some ''ks1vs2=''"
  by (simp add: demo_sign_result sign_document_def Let_def demo_signed_signatures
      demo_signed_files demo_eval)

text \<open>
  C6. \<open>verify_signature\<close> opens the document outside its \<open>try\<close> block and without the
  existence check \<open>sign_document\<close> makes: when a record matches and the file is gone, the
  exception leaves the method. \<open>sign_document\<close> likewise lets the exception of a missing
  private key file through.
\<close>

theorem verify_raises_when_document_is_gone:
  "fst (verify_signature demo_lib
          ((demo_signed ''v1'')\<lparr>files := (files (demo_signed ''v1''))(''a.txt'' := None)\<rparr>)
          ''a.txt'') = Inl FileNotFoundError \<and>
   fst (sign_document demo_lib ''s1'' (demo_now 0 1) (demo_now 0 2)
          \<lparr>signatures = [], files = [''a.txt'' \<mapsto> ''v1'']\<rparr> ''a.txt'' demo_signer) =
     Inl FileNotFoundError"
  by (simp add: verify_signature_def sign_document_def Let_def demo_signed_signatures
      demo_signed_files demo_eval)

end
